theory Spec2Isabelle
  imports Main
begin

section \<open>Rollout manager (utils/rollout.py)\<close>

text \<open>
  The registry of \<open>StoatRolloutManager\<close> is four dictionaries keyed by feature name.
  They are modelled as maps; the two set-valued dictionaries hold sets of server ids.
  Python's builtin \<open>hash\<close> on strings is not part of the repository: every function that
  calls it takes it as the parameter \<open>hash\<close>, an arbitrary function from strings to
  integers that is fixed for the lifetime of one process.  Python's \<open>%\<close> with a positive
  modulus is floor modulo, which is \<open>mod\<close> on \<open>int\<close>.
\<close>

datatype RolloutPhase = INTERNAL | BETA | GRADUAL | STABLE | DEPRECATED

datatype exn = ValueError | AttributeError

text \<open>\<open>RolloutPhase(phase_str)\<close>: the enum lookup by value; \<open>None\<close> stands for the
  \<open>ValueError\<close> it raises on any other string.\<close>

definition RolloutPhase_of :: "string \<Rightarrow> RolloutPhase option" where
  "RolloutPhase_of phase_str =
     (if phase_str = ''internal'' then Some INTERNAL
      else if phase_str = ''beta'' then Some BETA
      else if phase_str = ''gradual'' then Some GRADUAL
      else if phase_str = ''stable'' then Some STABLE
      else if phase_str = ''deprecated'' then Some DEPRECATED
      else None)"

record rollout_state =
  phase_config :: "string \<rightharpoonup> RolloutPhase"
  rollout_percentages :: "string \<rightharpoonup> int"
  whitelist :: "string \<rightharpoonup> string set"
  blacklist :: "string \<rightharpoonup> string set"

text \<open>The registry built by \<open>__init__\<close>.\<close>

definition init_rollout :: rollout_state where
  "init_rollout =
     \<lparr> phase_config =
         [''core_features'' \<mapsto> STABLE, ''verification'' \<mapsto> STABLE,
          ''moderation'' \<mapsto> STABLE, ''economy'' \<mapsto> GRADUAL,
          ''leveling'' \<mapsto> GRADUAL, ''tickets'' \<mapsto> BETA,
          ''giveaways'' \<mapsto> BETA, ''social_alerts'' \<mapsto> INTERNAL,
          ''ai_chat'' \<mapsto> INTERNAL],
       rollout_percentages =
         [''economy'' \<mapsto> 50, ''leveling'' \<mapsto> 50, ''tickets'' \<mapsto> 25,
          ''giveaways'' \<mapsto> 25, ''social_alerts'' \<mapsto> 5, ''ai_chat'' \<mapsto> 10],
       whitelist = Map.empty,
       blacklist = Map.empty \<rparr>"

text \<open>\<open>d.get(k, default)\<close> on a dictionary.\<close>

definition dict_get :: "('k \<rightharpoonup> 'v) \<Rightarrow> 'k \<Rightarrow> 'v \<Rightarrow> 'v" where
  "dict_get d k dflt = (case d k of Some v \<Rightarrow> v | None \<Rightarrow> dflt)"

definition can_use_feature ::
  "(string \<Rightarrow> int) \<Rightarrow> rollout_state \<Rightarrow> string \<Rightarrow> string \<Rightarrow> bool" where
  "can_use_feature hash s feature server_id =
     (let phase = dict_get (phase_config s) feature INTERNAL in
      if phase = STABLE then True
      else if phase = DEPRECATED then False
      else if server_id \<in> dict_get (blacklist s) feature {} then False
      else if phase = BETA then server_id \<in> dict_get (whitelist s) feature {}
      else if phase = GRADUAL then
        (let percentage = dict_get (rollout_percentages s) feature 0;
             rollout_hash = hash (server_id @ ''_'' @ feature) mod 100
         in rollout_hash < percentage)
      else False)"

definition set_phase :: "rollout_state \<Rightarrow> string \<Rightarrow> RolloutPhase \<Rightarrow> rollout_state" where
  "set_phase s feature phase = s\<lparr>phase_config := (phase_config s)(feature \<mapsto> phase)\<rparr>"

definition set_rollout_percentage :: "rollout_state \<Rightarrow> string \<Rightarrow> int \<Rightarrow> rollout_state" where
  "set_rollout_percentage s feature percentage =
     (let percentage' = max 0 (min 100 percentage)
      in s\<lparr>rollout_percentages := (rollout_percentages s)(feature \<mapsto> percentage')\<rparr>)"

definition add_whitelist :: "rollout_state \<Rightarrow> string \<Rightarrow> string \<Rightarrow> rollout_state" where
  "add_whitelist s feature server_id =
     (let w = (if feature \<notin> dom (whitelist s) then (whitelist s)(feature \<mapsto> {})
               else whitelist s)
      in s\<lparr>whitelist := w(feature \<mapsto> insert server_id (dict_get w feature {}))\<rparr>)"

definition remove_whitelist :: "rollout_state \<Rightarrow> string \<Rightarrow> string \<Rightarrow> rollout_state" where
  "remove_whitelist s feature server_id =
     (case whitelist s feature of
        Some w \<Rightarrow> s\<lparr>whitelist := (whitelist s)(feature \<mapsto> w - {server_id})\<rparr>
      | None \<Rightarrow> s)"

definition add_blacklist :: "rollout_state \<Rightarrow> string \<Rightarrow> string \<Rightarrow> rollout_state" where
  "add_blacklist s feature server_id =
     (let b = (if feature \<notin> dom (blacklist s) then (blacklist s)(feature \<mapsto> {})
               else blacklist s)
      in s\<lparr>blacklist := b(feature \<mapsto> insert server_id (dict_get b feature {}))\<rparr>)"

definition remove_blacklist :: "rollout_state \<Rightarrow> string \<Rightarrow> string \<Rightarrow> rollout_state" where
  "remove_blacklist s feature server_id =
     (case blacklist s feature of
        Some b \<Rightarrow> s\<lparr>blacklist := (blacklist s)(feature \<mapsto> b - {server_id})\<rparr>
      | None \<Rightarrow> s)"

text \<open>
  The configuration that \<open>json.loads\<close> hands to \<open>import_config\<close>: four JSON objects, each
  an insertion-ordered dictionary, given as lists of key/value pairs in iteration order.
  A key missing from the JSON document is the empty list (\<open>config.get(key, {})\<close>).
\<close>

record config =
  cfg_phases :: "(string \<times> string) list"
  cfg_percentages :: "(string \<times> int) list"
  cfg_whitelist :: "(string \<times> string list) list"
  cfg_blacklist :: "(string \<times> string list) list"

text \<open>
  The first loop of \<open>import_config\<close>.  Each iteration assigns into \<open>_phase_config\<close> at
  once; an invalid phase string raises out of the loop and the assignments made so far
  stay.  The result pairs the exception, if any, with the table as the loop left it.
\<close>

fun import_phases ::
  "(string \<times> string) list \<Rightarrow> (string \<rightharpoonup> RolloutPhase) \<Rightarrow> exn option \<times> (string \<rightharpoonup> RolloutPhase)"
where
  "import_phases [] pc = (None, pc)"
| "import_phases ((feature, phase_str) # rest) pc =
     (case RolloutPhase_of phase_str of
        None \<Rightarrow> (Some ValueError, pc)
      | Some p \<Rightarrow> import_phases rest (pc(feature \<mapsto> p)))"

text \<open>\<open>dict.update\<close> and the two loops that store \<open>set(servers)\<close>.\<close>

definition dict_update :: "('k \<rightharpoonup> 'v) \<Rightarrow> ('k \<times> 'v) list \<Rightarrow> ('k \<rightharpoonup> 'v)" where
  "dict_update d kvs = fold (\<lambda>kv m. m(fst kv \<mapsto> snd kv)) kvs d"

definition import_sets ::
  "(string \<times> string list) list \<Rightarrow> (string \<rightharpoonup> string set) \<Rightarrow> (string \<rightharpoonup> string set)" where
  "import_sets kvs d = fold (\<lambda>kv m. m(fst kv \<mapsto> set (snd kv))) kvs d"

text \<open>\<open>import_config\<close> on a parsed configuration: the \<open>except\<close> clause only logs, so the
  registry is left as it was at the moment of the exception.\<close>

definition import_config :: "rollout_state \<Rightarrow> config \<Rightarrow> rollout_state" where
  "import_config s cfg =
     (case import_phases (cfg_phases cfg) (phase_config s) of
        (Some e, pc) \<Rightarrow> s\<lparr>phase_config := pc\<rparr>
      | (None, pc) \<Rightarrow>
          s\<lparr>phase_config := pc,
            rollout_percentages := dict_update (rollout_percentages s) (cfg_percentages cfg),
            whitelist := import_sets (cfg_whitelist cfg) (whitelist s),
            blacklist := import_sets (cfg_blacklist cfg) (blacklist s)\<rparr>)"


text \<open>
  For stating what an interrupted import leaves behind: the entries of the \<open>phases\<close>
  object that come before the first invalid phase string, with their phases parsed (all
  entries when every phase string is valid).
\<close>

fun valid_prefix :: "(string \<times> string) list \<Rightarrow> (string \<times> RolloutPhase) list" where
  "valid_prefix [] = []"
| "valid_prefix ((feature, phase_str) # rest) =
     (case RolloutPhase_of phase_str of
        None \<Rightarrow> []
      | Some p \<Rightarrow> (feature, p) # valid_prefix rest)"

section \<open>Feature flags (utils/feature_flags.py)\<close>

datatype FeatureStatus = FS_DISABLED | FS_INTERNAL | FS_BETA | FS_GRADUAL | FS_ENABLED

text \<open>A flag dictionary.  Flags are only ever created from \<open>DEFAULT_FLAGS\<close>, where
  every entry carries all three keys, so a flag that is present is a non-empty
  dictionary and \<open>flag.get(key, default)\<close> reads the key.\<close>

record flag =
  status :: FeatureStatus
  rollout :: int
  description :: string

definition DEFAULT_FLAGS :: "string \<rightharpoonup> flag" where
  "DEFAULT_FLAGS =
     [''verification'' \<mapsto> \<lparr>status = FS_ENABLED, rollout = 100, description = ''User verification system''\<rparr>,
      ''moderation'' \<mapsto> \<lparr>status = FS_ENABLED, rollout = 100, description = ''Moderation tools''\<rparr>,
      ''economy'' \<mapsto> \<lparr>status = FS_GRADUAL, rollout = 50, description = ''Economy system''\<rparr>,
      ''leveling'' \<mapsto> \<lparr>status = FS_GRADUAL, rollout = 50, description = ''XP leveling system''\<rparr>,
      ''tickets'' \<mapsto> \<lparr>status = FS_BETA, rollout = 25, description = ''Support tickets''\<rparr>,
      ''giveaways'' \<mapsto> \<lparr>status = FS_BETA, rollout = 25, description = ''Giveaway system''\<rparr>,
      ''social_alerts'' \<mapsto> \<lparr>status = FS_INTERNAL, rollout = 5, description = ''Social media alerts (testing)''\<rparr>,
      ''ai_chat'' \<mapsto> \<lparr>status = FS_INTERNAL, rollout = 10, description = ''AI chat integration (testing)''\<rparr>]"

text \<open>\<open>server_id\<close> is \<open>Optional[str]\<close>; \<open>if server_id:\<close> holds for a non-empty string.\<close>

definition is_enabled ::
  "(string \<Rightarrow> int) \<Rightarrow> (string \<rightharpoonup> flag) \<Rightarrow> string \<Rightarrow> string option \<Rightarrow> bool" where
  "is_enabled hash flags feature server_id =
     (case flags feature of
        None \<Rightarrow> False
      | Some flag \<Rightarrow>
          if status flag = FS_DISABLED then False
          else if status flag = FS_ENABLED then True
          else (case server_id of
                  Some sid \<Rightarrow>
                    if sid \<noteq> [] then hash (sid @ ''_'' @ feature) mod 100 < rollout flag
                    else False
                | None \<Rightarrow> False))"

section \<open>The lookup provider (database/db_manager.py)\<close>

text \<open>
  \<open>get_member\<close>, \<open>get_role\<close> and \<open>get_guild\<close> return a document or \<open>None\<close>.  A document that
  is found carries its identifying keys and is therefore truthy; \<open>None\<close> is the only
  value on which \<open>if not doc\<close> fires.  Keys that the code reads with a default
  (\<open>roles\<close>, \<open>is_admin\<close>, \<open>is_mod\<close>, \<open>permissions\<close>) hold that default when absent; the two
  keys that documents are created without, \<open>position\<close> and \<open>owner_id\<close>, are optional.
\<close>

record member =
  roles :: "string list"
  is_admin :: bool
  is_mod :: bool
  permissions :: "string list"

record role =
  position :: "int option"

record guild =
  owner_id :: "string option"

record db =
  get_member :: "string \<Rightarrow> string \<Rightarrow> member option"
  get_role :: "string \<Rightarrow> string \<Rightarrow> role option"
  get_guild :: "string \<Rightarrow> guild option"

section \<open>Permission utilities (utils/permissions.py)\<close>

text \<open>\<open>PermissionChecker.can_moderate\<close>.  None of its steps raises on the documents
  above, so the \<open>except\<close> clause has no branch here.\<close>

definition can_moderate :: "db \<Rightarrow> string \<Rightarrow> string \<Rightarrow> string \<Rightarrow> bool \<times> string option" where
  "can_moderate d guild_id moderator_id target_id =
     (if moderator_id = target_id then (False, Some ''You cannot moderate yourself'')
      else (case get_member d guild_id moderator_id of
              None \<Rightarrow> (False, Some ''You have no permissions'')
            | Some mod_member \<Rightarrow>
                if \<not> (is_mod mod_member \<or> is_admin mod_member)
                then (False, Some ''You are not a moderator or admin'')
                else (case get_guild d guild_id of
                        Some g \<Rightarrow>
                          if owner_id g = Some target_id
                          then (False, Some ''You cannot moderate the server owner'')
                          else (True, None)
                      | None \<Rightarrow> (True, None))))"

definition get_permission_level :: "db \<Rightarrow> string \<Rightarrow> string \<Rightarrow> int" where
  "get_permission_level d guild_id user_id =
     (if (case get_guild d guild_id of Some g \<Rightarrow> owner_id g = Some user_id | None \<Rightarrow> False)
      then 3
      else (case get_member d guild_id user_id of
              None \<Rightarrow> 0
            | Some m \<Rightarrow> if is_admin m then 2 else if is_mod m then 1 else 0))"

text \<open>\<open>str.lower()\<close> on characters read as code points below 256: the ASCII capitals
  and the Latin-1 capitals move up by 32, everything else stays.\<close>

definition lower_char :: "char \<Rightarrow> char" where
  "lower_char c =
     (let n = (of_char c :: nat) in
      if 65 \<le> n \<and> n \<le> 90 then char_of (n + 32)
      else if 192 \<le> n \<and> n \<le> 214 then char_of (n + 32)
      else if 216 \<le> n \<and> n \<le> 222 then char_of (n + 32)
      else c)"

definition lower :: "string \<Rightarrow> string" where
  "lower s = List.map lower_char s"

definition permissions_map :: "(string \<times> int) list" where
  "permissions_map =
     [(''ban_members'', 2), (''kick_members'', 2), (''manage_members'', 2),
      (''manage_roles'', 2), (''manage_channels'', 2), (''manage_messages'', 2),
      (''mute_members'', 1), (''deafen_members'', 1),
      (''send_messages'', 0), (''read_messages'', 0)]"

definition has_permission :: "db \<Rightarrow> string \<Rightarrow> string \<Rightarrow> string \<Rightarrow> bool" where
  "has_permission d guild_id user_id permission =
     (let permission' = lower permission;
          required_level = dict_get (map_of permissions_map) permission' 0;
          user_level = get_permission_level d guild_id user_id
      in user_level \<ge> required_level)"

section \<open>Role hierarchy (adapters/stoat_permissions.py)\<close>

text \<open>Python's \<open>max(xs, key=f)\<close> on a non-empty list: the first element with the
  largest key.\<close>

fun max_by :: "('a \<Rightarrow> int) \<Rightarrow> 'a \<Rightarrow> 'a list \<Rightarrow> 'a" where
  "max_by key best [] = best"
| "max_by key best (x # xs) = (if key x > key best then max_by key x xs else max_by key best xs)"

definition position_get :: "role \<Rightarrow> int" where
  "position_get r = (case position r of Some p \<Rightarrow> p | None \<Rightarrow> 0)"

text \<open>\<open>_get_top_role\<close>: role ids that do not resolve are skipped.\<close>

definition get_top_role :: "db \<Rightarrow> string \<Rightarrow> string list \<Rightarrow> role" where
  "get_top_role d guild_id role_ids =
     (case List.map_filter (get_role d guild_id) role_ids of
        [] \<Rightarrow> \<lparr>position = Some (- 1)\<rparr>
      | r # rs \<Rightarrow> max_by position_get r rs)"

text \<open>\<open>_check_permission\<close> fetches the member again.\<close>

definition check_permission :: "db \<Rightarrow> string \<Rightarrow> string \<Rightarrow> string \<Rightarrow> bool" where
  "check_permission d guild_id user_id permission =
     (case get_member d guild_id user_id of
        None \<Rightarrow> False
      | Some m \<Rightarrow> is_admin m \<or> permission \<in> set (permissions m))"

text \<open>
  The body of the \<open>try\<close> block of \<open>can_moderate_member\<close>.  The guild is fetched but not
  tested; \<open>guild.get\<close> on \<open>None\<close> raises \<open>AttributeError\<close>, which is the \<open>Inl\<close> branch.
\<close>

definition can_moderate_member_body ::
  "db \<Rightarrow> string \<Rightarrow> string \<Rightarrow> string \<Rightarrow> exn + (bool \<times> string option)" where
  "can_moderate_member_body d moderator_id target_id guild_id =
     (if moderator_id = target_id then Inr (False, Some ''Cannot moderate yourself'')
      else
        (let moderator = get_member d guild_id moderator_id;
             target = get_member d guild_id target_id;
             guild = get_guild d guild_id
         in case (moderator, target) of
              (Some m, Some t) \<Rightarrow>
                (case guild of
                   None \<Rightarrow> Inl AttributeError
                 | Some g \<Rightarrow>
                     if owner_id g = Some moderator_id then Inr (True, None)
                     else if owner_id g = Some target_id
                     then Inr (False, Some ''Cannot moderate server owner'')
                     else
                       (let has_kick = check_permission d guild_id moderator_id ''kick_members'';
                            has_ban = check_permission d guild_id moderator_id ''ban_members''
                        in if \<not> (has_kick \<or> has_ban)
                           then Inr (False, Some ''You don't have permission to moderate'')
                           else
                             (let mod_top = get_top_role d guild_id (roles m);
                                  target_top = get_top_role d guild_id (roles t)
                              in if position_get mod_top \<le> position_get target_top
                                 then Inr (False, Some ''Target has equal or higher role'')
                                 else Inr (True, None))))
            | _ \<Rightarrow> Inr (False, Some ''Member not found'')))"

text \<open>The \<open>except Exception\<close> clause turns any exception into a deny.\<close>

definition can_moderate_member ::
  "db \<Rightarrow> string \<Rightarrow> string \<Rightarrow> string \<Rightarrow> bool \<times> string option" where
  "can_moderate_member d moderator_id target_id guild_id =
     (case can_moderate_member_body d moderator_id target_id guild_id of
        Inr r \<Rightarrow> r
      | Inl e \<Rightarrow> (False, Some ''Permission check failed''))"

definition can_manage_role_body :: "db \<Rightarrow> string \<Rightarrow> string \<Rightarrow> string \<Rightarrow> exn + bool" where
  "can_manage_role_body d executor_id target_role_id guild_id =
     (let executor = get_member d guild_id executor_id;
          target_role = get_role d guild_id target_role_id
      in case (executor, target_role) of
           (Some e, Some tr) \<Rightarrow>
             (case get_guild d guild_id of
                None \<Rightarrow> Inl AttributeError
              | Some g \<Rightarrow>
                  if owner_id g = Some executor_id then Inr True
                  else if is_admin e then
                    (let executor_top_role = get_top_role d guild_id (roles e)
                     in Inr (position_get executor_top_role > position_get tr))
                  else Inr False)
         | _ \<Rightarrow> Inr False)"

definition can_manage_role :: "db \<Rightarrow> string \<Rightarrow> string \<Rightarrow> string \<Rightarrow> bool" where
  "can_manage_role d executor_id target_role_id guild_id =
     (case can_manage_role_body d executor_id target_role_id guild_id of
        Inr r \<Rightarrow> r
      | Inl e \<Rightarrow> False)"


section \<open>Example data\<close>

text \<open>
  A small provider used to evaluate the decision functions.  Guild \<open>g1\<close> is owned by
  \<open>olivia\<close>, guild \<open>g2\<close> by \<open>zed\<close>, who has no member document; any other guild id does not
  resolve.  \<open>alice\<close> and \<open>bob\<close> hold different roles of the same position, \<open>alice\<close> also a
  role id that does not resolve; \<open>carol\<close> has no roles and no permissions; \<open>dave\<close> is an
  administrator.
\<close>

definition example_members :: "string \<Rightarrow> string \<Rightarrow> member option" where
  "example_members guild_id user_id =
     (if user_id = ''olivia''
      then Some \<lparr>roles = [], is_admin = False, is_mod = False, permissions = []\<rparr>
      else if user_id = ''alice''
      then Some \<lparr>roles = [''mods'', ''ghost''], is_admin = False, is_mod = True,
                 permissions = [''kick_members'']\<rparr>
      else if user_id = ''bob''
      then Some \<lparr>roles = [''helpers''], is_admin = False, is_mod = True,
                 permissions = [''ban_members'']\<rparr>
      else if user_id = ''carol''
      then Some \<lparr>roles = [], is_admin = False, is_mod = False, permissions = []\<rparr>
      else if user_id = ''dave''
      then Some \<lparr>roles = [''admins''], is_admin = True, is_mod = False, permissions = []\<rparr>
      else None)"

definition example_roles :: "string \<Rightarrow> string \<Rightarrow> role option" where
  "example_roles guild_id role_id =
     (if role_id = ''mods'' then Some \<lparr>position = Some 5\<rparr>
      else if role_id = ''helpers'' then Some \<lparr>position = Some 5\<rparr>
      else if role_id = ''admins'' then Some \<lparr>position = Some 9\<rparr>
      else None)"

definition example_guilds :: "string \<Rightarrow> guild option" where
  "example_guilds guild_id =
     (if guild_id = ''g1'' then Some \<lparr>owner_id = Some ''olivia''\<rparr>
      else if guild_id = ''g2'' then Some \<lparr>owner_id = Some ''zed''\<rparr>
      else None)"

definition example_db :: db where
  "example_db =
     \<lparr>get_member = example_members, get_role = example_roles, get_guild = example_guilds\<rparr>"

definition example_config :: config where
  "example_config =
     \<lparr>cfg_phases = [(''tickets'', ''stable''), (''economy'', ''bogus''), (''ai_chat'', ''beta'')],
      cfg_percentages = [(''economy'', 75)],
      cfg_whitelist = [(''tickets'', [''s1''])],
      cfg_blacklist = []\<rparr>"

definition example_hash :: "string \<Rightarrow> int" where
  "example_hash s = int (length s)"



section \<open>Rollout decisions\<close>

lemma blacklist_denies_unless_stable:
  assumes "server_id \<in> dict_get (blacklist s) feature {}"
    and "phase_config s feature \<noteq> Some STABLE"
  shows "\<not> can_use_feature hash s feature server_id"
  using assms by (auto simp add: can_use_feature_def dict_get_def Let_def split: option.splits)

text \<open>
  C1.  Blacklist membership is meant to deny before anything else.  In the code the test
  for \<open>STABLE\<close> comes first: after \<open>add_blacklist\<close> ("Block server from feature") on the
  stable feature \<open>moderation\<close>, the blacklisted server is still allowed, whatever the hash.
\<close>

theorem blacklist_ignored_when_stable:
  "''s1'' \<in> dict_get (blacklist (add_blacklist init_rollout ''moderation'' ''s1'')) ''moderation'' {}
   \<and> can_use_feature hash (add_blacklist init_rollout ''moderation'' ''s1'') ''moderation'' ''s1'' = True"
  by (simp add: can_use_feature_def add_blacklist_def init_rollout_def dict_get_def)

lemma import_phases_table:
  "snd (import_phases kvs pc) = dict_update pc (valid_prefix kvs)"
proof (induction kvs arbitrary: pc)
  case Nil
  then show ?case by (simp add: dict_update_def)
next
  case (Cons kv kvs)
  obtain f p where kv: "kv = (f, p)" by (cases kv)
  show ?case
  proof (cases "RolloutPhase_of p")
    case None
    then show ?thesis by (simp add: kv dict_update_def)
  next
    case (Some ph)
    have "snd (import_phases kvs (pc(f \<mapsto> ph))) = dict_update (pc(f \<mapsto> ph)) (valid_prefix kvs)"
      by (rule Cons.IH)
    then show ?thesis by (simp add: kv Some dict_update_def)
  qed
qed

lemma import_phases_raises:
  assumes "\<exists>(f, p) \<in> set kvs. RolloutPhase_of p = None"
  shows "fst (import_phases kvs pc) = Some ValueError"
  using assms
proof (induction kvs arbitrary: pc)
  case Nil
  then show ?case by simp
next
  case (Cons kv kvs)
  obtain f p where kv: "kv = (f, p)" by (cases kv)
  show ?case
  proof (cases "RolloutPhase_of p")
    case None
    then show ?thesis by (simp add: kv)
  next
    case (Some ph)
    with Cons.prems kv have "\<exists>(f, p) \<in> set kvs. RolloutPhase_of p = None" by auto
    then have "fst (import_phases kvs (pc(f \<mapsto> ph))) = Some ValueError"
      by (rule Cons.IH)
    then show ?thesis by (simp add: kv Some)
  qed
qed

text \<open>
  C2 (as amended).  \<open>import_config\<close> is not all-or-nothing.  When the \<open>phases\<close> object holds an
  invalid phase string, the import stops at the first such entry: percentages,
  whitelists and blacklists are exactly what they were, and the phase table has been
  overwritten for precisely the entries that precede the first invalid one.
\<close>

theorem import_config_stops_at_first_invalid:
  assumes "\<exists>(f, p) \<in> set (cfg_phases cfg). RolloutPhase_of p = None"
  shows "rollout_percentages (import_config s cfg) = rollout_percentages s
       \<and> whitelist (import_config s cfg) = whitelist s
       \<and> blacklist (import_config s cfg) = blacklist s
       \<and> phase_config (import_config s cfg) =
           dict_update (phase_config s) (valid_prefix (cfg_phases cfg))"
proof -
  obtain e pc where r: "import_phases (cfg_phases cfg) (phase_config s) = (e, pc)"
    by (cases "import_phases (cfg_phases cfg) (phase_config s)")
  from import_phases_raises [OF assms, of "phase_config s"] r
  have e: "e = Some ValueError" by simp
  from import_phases_table [of "cfg_phases cfg" "phase_config s"] r
  have pc: "pc = dict_update (phase_config s) (valid_prefix (cfg_phases cfg))" by simp
  show ?thesis by (simp add: import_config_def r e pc)
qed

theorem import_config_stops_at_first_invalid_witness:
  "RolloutPhase_of ''bogus'' = None
   \<and> rollout_percentages (import_config init_rollout example_config) = rollout_percentages init_rollout
   \<and> whitelist (import_config init_rollout example_config) = whitelist init_rollout
   \<and> blacklist (import_config init_rollout example_config) = blacklist init_rollout
   \<and> phase_config (import_config init_rollout example_config) =
       (phase_config init_rollout)(''tickets'' \<mapsto> STABLE)"
proof -
  have b: "RolloutPhase_of ''bogus'' = None" by (simp add: RolloutPhase_of_def)
  have h: "\<exists>(f, p) \<in> set (cfg_phases example_config). RolloutPhase_of p = None"
    by (simp add: example_config_def RolloutPhase_of_def)
  have v: "valid_prefix (cfg_phases example_config) = [(''tickets'', STABLE)]"
    by (simp add: example_config_def RolloutPhase_of_def)
  show ?thesis
    using b import_config_stops_at_first_invalid [OF h, of init_rollout]
    by (simp add: v dict_update_def)
qed

text \<open>The claim as stated fails: one invalid phase string after a valid one, and the
  registry has changed.\<close>

theorem import_config_not_atomic_counterexample:
  "RolloutPhase_of ''bogus'' = None
   \<and> phase_config init_rollout ''tickets'' = Some BETA
   \<and> phase_config (import_config init_rollout example_config) ''tickets'' = Some STABLE
   \<and> import_config init_rollout example_config \<noteq> init_rollout"
proof -
  have a: "RolloutPhase_of ''bogus'' = None" by (simp add: RolloutPhase_of_def)
  have b: "phase_config init_rollout ''tickets'' = Some BETA" by (simp add: init_rollout_def)
  have c: "phase_config (import_config init_rollout example_config) ''tickets'' = Some STABLE"
    by (simp add: import_config_def example_config_def RolloutPhase_of_def)
  from b c have "import_config init_rollout example_config \<noteq> init_rollout" by auto
  with a b c show ?thesis by simp
qed




text \<open>
  C8.  Boundary percentages: for a feature in phase \<open>GRADUAL\<close> and a server that is not on
  its blacklist, the decision is false once the percentage is set to 0 and true once it
  is set to 100, for every server id and every hash function, because the bucket lies
  in \<open>[0, 100)\<close>.
\<close>

theorem gradual_boundaries:
  assumes "phase_config s feature = Some GRADUAL"
    and "server_id \<notin> dict_get (blacklist s) feature {}"
  shows "\<not> can_use_feature hash (set_rollout_percentage s feature 0) feature server_id
       \<and> can_use_feature hash (set_rollout_percentage s feature 100) feature server_id"
  using assms
  by (simp add: can_use_feature_def set_rollout_percentage_def dict_get_def Let_def not_less)

theorem gradual_boundaries_witness:
  "phase_config init_rollout ''economy'' = Some GRADUAL
   \<and> ''s1'' \<notin> dict_get (blacklist init_rollout) ''economy'' {}
   \<and> \<not> can_use_feature example_hash (set_rollout_percentage init_rollout ''economy'' 0) ''economy'' ''s1''
   \<and> can_use_feature example_hash (set_rollout_percentage init_rollout ''economy'' 100) ''economy'' ''s1''"
proof -
  have a: "phase_config init_rollout ''economy'' = Some GRADUAL"
    by (simp add: init_rollout_def)
  have b: "''s1'' \<notin> dict_get (blacklist init_rollout) ''economy'' {}"
    by (simp add: init_rollout_def dict_get_def)
  show ?thesis using a b gradual_boundaries [OF a b, of example_hash] by simp
qed

text \<open>
  C10.  Unknown feature names are disabled: a feature with no entry in the phase table
  is denied by \<open>can_use_feature\<close> (the phase defaults to \<open>INTERNAL\<close>), and a feature with no
  flag is denied by \<open>is_enabled\<close>.
\<close>

theorem unknown_feature_disabled:
  "(phase_config s feature = None \<longrightarrow> \<not> can_use_feature hash s feature server_id)
   \<and> (flags feature = None \<longrightarrow> \<not> is_enabled hash flags feature sid)"
  by (simp add: can_use_feature_def is_enabled_def dict_get_def)

theorem unknown_feature_disabled_witness:
  "phase_config init_rollout ''teleport'' = None
   \<and> \<not> can_use_feature example_hash init_rollout ''teleport'' ''s1''
   \<and> DEFAULT_FLAGS ''teleport'' = None
   \<and> \<not> is_enabled example_hash DEFAULT_FLAGS ''teleport'' (Some ''s1'')"
proof -
  have a: "phase_config init_rollout ''teleport'' = None" by (simp add: init_rollout_def)
  have b: "DEFAULT_FLAGS ''teleport'' = None" by (simp add: DEFAULT_FLAGS_def)
  show ?thesis
    using a b
      unknown_feature_disabled [of init_rollout "''teleport''" example_hash "''s1''"
        DEFAULT_FLAGS "Some ''s1''"]
    by simp
qed


section \<open>Hierarchy decisions\<close>

text \<open>
  C9 (as amended).  Self-moderation is always denied, before any lookup and therefore
  also for the owner.  The reason strings are the code's own: \<open>can_moderate_member\<close>
  answers "Cannot moderate yourself" and \<open>can_moderate\<close> answers "You cannot moderate
  yourself".
\<close>

theorem self_moderation_denied:
  "can_moderate_member d a a g = (False, Some ''Cannot moderate yourself'')
   \<and> can_moderate d g a a = (False, Some ''You cannot moderate yourself'')"
  by (simp add: can_moderate_member_def can_moderate_member_body_def can_moderate_def)

text \<open>The reason string the claim names is returned by neither function.\<close>

theorem self_moderation_reason_counterexample:
  "can_moderate_member example_db ''olivia'' ''olivia'' ''g1'' \<noteq> (False, Some ''cannot act on self'')
   \<and> can_moderate example_db ''g1'' ''olivia'' ''olivia'' \<noteq> (False, Some ''cannot act on self'')"
  by (simp add: can_moderate_member_def can_moderate_member_body_def can_moderate_def)

text \<open>
  C4 (as amended).  The owner check comes after the member lookups, not right after the
  self-check.  When the guild resolves and both the owner and the target have member
  documents, the owner may moderate every other member, whatever the owner's flags,
  permissions and roles are.
\<close>

theorem owner_allowed_when_members_found:
  assumes "get_guild d g = Some gd" and "owner_id gd = Some a" and "t \<noteq> a"
    and "get_member d g a = Some ma" and "get_member d g t = Some mt"
  shows "can_moderate_member d a t g = (True, None)"
  using assms by (auto simp add: can_moderate_member_def can_moderate_member_body_def)

theorem owner_allowed_when_members_found_witness:
  "get_guild example_db ''g1'' = Some \<lparr>owner_id = Some ''olivia''\<rparr>
   \<and> ''dave'' \<noteq> ''olivia''
   \<and> get_member example_db ''g1'' ''olivia'' \<noteq> None
   \<and> get_member example_db ''g1'' ''dave'' \<noteq> None
   \<and> can_moderate_member example_db ''olivia'' ''dave'' ''g1'' = (True, None)"
proof -
  have a: "get_guild example_db ''g1'' = Some \<lparr>owner_id = Some ''olivia''\<rparr>"
    by (simp add: example_db_def example_guilds_def)
  have b: "owner_id \<lparr>owner_id = Some ''olivia''\<rparr> = Some ''olivia''" by simp
  have c: "''dave'' \<noteq> ''olivia''" by simp
  have m1: "get_member example_db ''g1'' ''olivia''
              = Some \<lparr>roles = [], is_admin = False, is_mod = False, permissions = []\<rparr>"
    by (simp add: example_db_def example_members_def)
  have m2: "get_member example_db ''g1'' ''dave''
              = Some \<lparr>roles = [''admins''], is_admin = True, is_mod = False, permissions = []\<rparr>"
    by (simp add: example_db_def example_members_def)
  show ?thesis
    using a c m1 m2 owner_allowed_when_members_found [OF a b c m1 m2] by simp
qed

text \<open>An owner without a member document is denied.\<close>

theorem owner_without_member_record_counterexample:
  "get_guild example_db ''g2'' = Some \<lparr>owner_id = Some ''zed''\<rparr>
   \<and> ''alice'' \<noteq> ''zed''
   \<and> get_member example_db ''g2'' ''zed'' = None
   \<and> can_moderate_member example_db ''zed'' ''alice'' ''g2'' = (False, Some ''Member not found'')"
  by (simp add: can_moderate_member_def can_moderate_member_body_def example_db_def
      example_guilds_def example_members_def)

text \<open>
  C5 (as amended).  A member or guild that is not found is a deny, never an exception:
  \<open>can_moderate_member\<close> then answers false with one of three reasons, and
  \<open>can_manage_role\<close>, which returns a bare boolean, answers false when the executor, the
  target role or the guild is not found.  (A role id in a member's role list that does
  not resolve is skipped by \<open>get_top_role\<close> and decides nothing by itself.)
\<close>

theorem not_found_is_deny:
  "(get_member d g a = None \<or> get_member d g t = None \<or> get_guild d g = None \<longrightarrow>
      can_moderate_member d a t g \<in>
        {(False, Some ''Cannot moderate yourself''),
         (False, Some ''Member not found''),
         (False, Some ''Permission check failed'')})
   \<and> (get_member d g a = None \<or> get_role d g r = None \<or> get_guild d g = None \<longrightarrow>
      can_manage_role d a r g = False)"
  by (auto simp add: can_moderate_member_def can_moderate_member_body_def
      can_manage_role_def can_manage_role_body_def Let_def split: option.splits)

theorem not_found_is_deny_witness:
  "get_member example_db ''g3'' ''nobody'' = None
   \<and> get_role example_db ''g3'' ''ghost'' = None
   \<and> get_guild example_db ''g3'' = None
   \<and> can_moderate_member example_db ''nobody'' ''alice'' ''g3'' = (False, Some ''Member not found'')
   \<and> can_manage_role example_db ''nobody'' ''ghost'' ''g3'' = False"
proof -
  have m: "get_member example_db ''g3'' ''nobody'' = None"
    by (simp add: example_db_def example_members_def)
  have r: "get_role example_db ''g3'' ''ghost'' = None"
    by (simp add: example_db_def example_roles_def)
  have gd: "get_guild example_db ''g3'' = None"
    by (simp add: example_db_def example_guilds_def)
  have v: "can_moderate_member example_db ''nobody'' ''alice'' ''g3'' = (False, Some ''Member not found'')"
    by (simp add: can_moderate_member_def can_moderate_member_body_def m)
  show ?thesis
    using m r gd v not_found_is_deny [of example_db "''g3''" "''nobody''" "''alice''" "''ghost''"]
    by simp
qed

text \<open>A role lookup that returns not-found does not deny: \<open>alice\<close> holds a role id that
  does not resolve and is still allowed to moderate \<open>carol\<close>.\<close>

theorem unresolved_role_allows_counterexample:
  "get_role example_db ''g1'' ''ghost'' = None
   \<and> ''ghost'' \<in> set (roles (the (get_member example_db ''g1'' ''alice'')))
   \<and> can_moderate_member example_db ''alice'' ''carol'' ''g1'' = (True, None)"
  by (simp add: can_moderate_member_def can_moderate_member_body_def example_db_def
      example_guilds_def example_members_def example_roles_def check_permission_def
      get_top_role_def position_get_def List.map_filter_def)

lemma non_owner_decision:
  assumes "a \<noteq> b" and "get_guild d g = Some gd"
    and "owner_id gd \<noteq> Some a" and "owner_id gd \<noteq> Some b"
    and "get_member d g a = Some ma" and "get_member d g b = Some mb"
  shows "can_moderate_member d a b g =
     (if \<not> (check_permission d g a ''kick_members'' \<or> check_permission d g a ''ban_members'')
      then (False, Some ''You don't have permission to moderate'')
      else if position_get (get_top_role d g (roles ma)) \<le> position_get (get_top_role d g (roles mb))
      then (False, Some ''Target has equal or higher role'')
      else (True, None))"
  using assms by (simp add: can_moderate_member_def can_moderate_member_body_def Let_def)


text \<open>
  C6 (as amended).  Ties favour the target.  For two distinct members, neither of them
  the owner, of a guild that resolves, whose top roles have equal position (\<open>-1\<close> for a
  member without a resolvable role), \<open>can_moderate_member\<close> denies in both directions; the
  reason is "Target has equal or higher role" when the actor holds \<open>kick_members\<close> or
  \<open>ban_members\<close> (or is an administrator) and "You don't have permission to moderate"
  otherwise.  And an actor who is not the owner is allowed only when the actor's top
  position is strictly greater than the target's.
\<close>

theorem tie_denies_both_directions:
  "(a \<noteq> b \<and> get_guild d g = Some gd \<and> owner_id gd \<noteq> Some a \<and> owner_id gd \<noteq> Some b
     \<and> get_member d g a = Some ma \<and> get_member d g b = Some mb
     \<and> position_get (get_top_role d g (roles ma)) = position_get (get_top_role d g (roles mb))
    \<longrightarrow> can_moderate_member d a b g =
          (False, Some (if check_permission d g a ''kick_members'' \<or> check_permission d g a ''ban_members''
                        then ''Target has equal or higher role''
                        else ''You don't have permission to moderate''))
      \<and> can_moderate_member d b a g =
          (False, Some (if check_permission d g b ''kick_members'' \<or> check_permission d g b ''ban_members''
                        then ''Target has equal or higher role''
                        else ''You don't have permission to moderate'')))
   \<and> (get_guild d g = Some gd \<and> owner_id gd \<noteq> Some x
       \<and> get_member d g x = Some mx \<and> get_member d g y = Some my
       \<and> fst (can_moderate_member d x y g)
    \<longrightarrow> position_get (get_top_role d g (roles my)) < position_get (get_top_role d g (roles mx)))"
proof (intro conjI impI)
  assume h: "a \<noteq> b \<and> get_guild d g = Some gd \<and> owner_id gd \<noteq> Some a \<and> owner_id gd \<noteq> Some b
     \<and> get_member d g a = Some ma \<and> get_member d g b = Some mb
     \<and> position_get (get_top_role d g (roles ma)) = position_get (get_top_role d g (roles mb))"
  then show "can_moderate_member d a b g =
          (False, Some (if check_permission d g a ''kick_members'' \<or> check_permission d g a ''ban_members''
                        then ''Target has equal or higher role''
                        else ''You don't have permission to moderate''))"
    by (simp add: non_owner_decision [of a b d g gd ma mb])
  from h have "b \<noteq> a" by auto
  with h show "can_moderate_member d b a g =
          (False, Some (if check_permission d g b ''kick_members'' \<or> check_permission d g b ''ban_members''
                        then ''Target has equal or higher role''
                        else ''You don't have permission to moderate''))"
    by (simp add: non_owner_decision [of b a d g gd mb ma])
next
  assume h: "get_guild d g = Some gd \<and> owner_id gd \<noteq> Some x
       \<and> get_member d g x = Some mx \<and> get_member d g y = Some my
       \<and> fst (can_moderate_member d x y g)"
  then show "position_get (get_top_role d g (roles my)) < position_get (get_top_role d g (roles mx))"
    by (auto simp add: can_moderate_member_def can_moderate_member_body_def Let_def
        split: if_splits)
qed

theorem tie_denies_both_directions_witness:
  "position_get (get_top_role example_db ''g1'' [''mods'', ''ghost''])
     = position_get (get_top_role example_db ''g1'' [''helpers''])
   \<and> can_moderate_member example_db ''alice'' ''bob'' ''g1''
       = (False, Some ''Target has equal or higher role'')
   \<and> can_moderate_member example_db ''bob'' ''alice'' ''g1''
       = (False, Some ''Target has equal or higher role'')
   \<and> fst (can_moderate_member example_db ''dave'' ''alice'' ''g1'')
   \<and> position_get (get_top_role example_db ''g1'' [''mods'', ''ghost''])
       < position_get (get_top_role example_db ''g1'' [''admins''])"
proof -
  have gd: "get_guild example_db ''g1'' = Some \<lparr>owner_id = Some ''olivia''\<rparr>"
    by (simp add: example_db_def example_guilds_def)
  have ma: "get_member example_db ''g1'' ''alice''
      = Some \<lparr>roles = [''mods'', ''ghost''], is_admin = False, is_mod = True,
               permissions = [''kick_members'']\<rparr>"
    by (simp add: example_db_def example_members_def)
  have mb: "get_member example_db ''g1'' ''bob''
      = Some \<lparr>roles = [''helpers''], is_admin = False, is_mod = True,
               permissions = [''ban_members'']\<rparr>"
    by (simp add: example_db_def example_members_def)
  have md: "get_member example_db ''g1'' ''dave''
      = Some \<lparr>roles = [''admins''], is_admin = True, is_mod = False, permissions = []\<rparr>"
    by (simp add: example_db_def example_members_def)
  have tie: "position_get (get_top_role example_db ''g1'' [''mods'', ''ghost''])
     = position_get (get_top_role example_db ''g1'' [''helpers''])"
    by (simp add: example_db_def example_roles_def get_top_role_def position_get_def
        List.map_filter_def)
  have pa: "check_permission example_db ''g1'' ''alice'' ''kick_members''"
    by (simp add: check_permission_def ma)
  have pb: "check_permission example_db ''g1'' ''bob'' ''ban_members''"
    by (simp add: check_permission_def mb)
  have al: "fst (can_moderate_member example_db ''dave'' ''alice'' ''g1'')"
    by (simp add: can_moderate_member_def can_moderate_member_body_def ma md gd
        check_permission_def)
       (simp add: example_db_def example_roles_def get_top_role_def position_get_def
        List.map_filter_def)
  show ?thesis
    using gd ma mb md tie pa pb al
      tie_denies_both_directions [of "''alice''" "''bob''" example_db "''g1''"
        "\<lparr>owner_id = Some ''olivia''\<rparr>"
        "\<lparr>roles = [''mods'', ''ghost''], is_admin = False, is_mod = True,
          permissions = [''kick_members'']\<rparr>"
        "\<lparr>roles = [''helpers''], is_admin = False, is_mod = True,
          permissions = [''ban_members'']\<rparr>"
        "''dave''"
        "\<lparr>roles = [''admins''], is_admin = True, is_mod = False, permissions = []\<rparr>"
        "''alice''"
        "\<lparr>roles = [''mods'', ''ghost''], is_admin = False, is_mod = True,
          permissions = [''kick_members'']\<rparr>"]
    by simp
qed

text \<open>The reason string differs from the one the claim names, and an actor without
  moderation permissions is turned away before the positions are compared.\<close>

theorem tie_reason_counterexample:
  "position_get (get_top_role example_db ''g1'' [''mods'', ''ghost''])
     = position_get (get_top_role example_db ''g1'' [''helpers''])
   \<and> can_moderate_member example_db ''alice'' ''bob'' ''g1''
       \<noteq> (False, Some ''target has equal or higher role'')
   \<and> position_get (get_top_role example_db ''g2'' []) = position_get (get_top_role example_db ''g2'' [])
   \<and> can_moderate_member example_db ''carol'' ''olivia'' ''g2''
       = (False, Some ''You don't have permission to moderate'')"
  by (simp add: can_moderate_member_def can_moderate_member_body_def example_db_def
      example_guilds_def example_members_def example_roles_def check_permission_def
      get_top_role_def position_get_def List.map_filter_def)

section \<open>Permission levels\<close>

lemma get_permission_level_nonneg: "0 \<le> get_permission_level d g u"
  by (simp add: get_permission_level_def split: option.splits)

text \<open>
  C7 (as amended).  Unknown permission names fail open once lower-cased: when the
  lower-cased name is not a key of the permission table, the required level is 0 and
  \<open>has_permission\<close> is true for every user, with or without a member document.
\<close>

theorem unknown_permission_granted:
  assumes "map_of permissions_map (lower permission) = None"
  shows "has_permission d guild_id user_id permission"
  using assms get_permission_level_nonneg [of d guild_id user_id]
  by (simp add: has_permission_def dict_get_def)

theorem unknown_permission_granted_witness:
  "map_of permissions_map (lower ''Fly'') = None
   \<and> get_member example_db ''g1'' ''nobody'' = None
   \<and> has_permission example_db ''g1'' ''nobody'' ''Fly''"
proof -
  have h: "map_of permissions_map (lower ''Fly'') = None"
    by code_simp
  have m: "get_member example_db ''g1'' ''nobody'' = None"
    by (simp add: example_db_def example_members_def)
  show ?thesis using h m unknown_permission_granted [OF h] by simp
qed

text \<open>A name that is not a key of the table can still be refused: the lookup is made
  on the lower-cased name.\<close>

theorem uppercase_known_permission_counterexample:
  "map_of permissions_map ''BAN_MEMBERS'' = None
   \<and> \<not> has_permission example_db ''g1'' ''carol'' ''BAN_MEMBERS''"
  by code_simp

end
